theory Spec2Isabelle
  imports Main
begin

section \<open>Strings and paths\<close>

text \<open>
  Python strings are modelled as \<open>string\<close>. The helpers below are the string methods
  that \<^verbatim>\<open>latex_service.py\<close> calls: \<^verbatim>\<open>str.lower\<close> (on the ASCII letters, the
  only ones a name returned by \<^verbatim>\<open>secure_filename\<close> holds), \<^verbatim>\<open>str.startswith\<close>,
  \<^verbatim>\<open>str.endswith\<close>, the operator \<^verbatim>\<open>in\<close> on strings and \<^verbatim>\<open>str.split\<close>.
\<close>

definition lower_char :: "char \<Rightarrow> char" where
  "lower_char c =
     (case map_of (zip ''ABCDEFGHIJKLMNOPQRSTUVWXYZ'' ''abcdefghijklmnopqrstuvwxyz'') c of
        None \<Rightarrow> c
      | Some l \<Rightarrow> l)"

definition lower :: "string \<Rightarrow> string" where
  "lower s = map lower_char s"

definition startswith :: "string \<Rightarrow> string \<Rightarrow> bool" where
  "startswith s p = (take (length p) s = p)"

definition endswith :: "string \<Rightarrow> string \<Rightarrow> bool" where
  "endswith s p = (length p \<le> length s \<and> drop (length s - length p) s = p)"

text \<open>\<^verbatim>\<open>sub in s\<close>: \<open>sub\<close> occurs in \<open>s\<close> as a contiguous substring.\<close>

fun contains :: "string \<Rightarrow> string \<Rightarrow> bool" where
  "contains [] sub = (sub = [])"
| "contains (c # cs) sub = (startswith (c # cs) sub \<or> contains cs sub)"

text \<open>\<^verbatim>\<open>s.split(sep)\<close> for a separator of one character.\<close>

fun split_on :: "char \<Rightarrow> string \<Rightarrow> string list" where
  "split_on sep [] = [[]]"
| "split_on sep (c # cs) =
     (if c = sep then [] # split_on sep cs
      else (case split_on sep cs of
              [] \<Rightarrow> [[c]]
            | l # ls \<Rightarrow> (c # l) # ls))"

text \<open>\<^verbatim>\<open>s.rfind(c)\<close>; \<open>None\<close> stands for Python's \<open>-1\<close>.\<close>

definition rfind_char :: "char \<Rightarrow> string \<Rightarrow> nat option" where
  "rfind_char c s =
     (if c \<in> set s then Some (length s - Suc (length (takeWhile (\<lambda>x. x \<noteq> c) (rev s))))
      else None)"

text \<open>
  \<^verbatim>\<open>pathlib.PurePath.suffix\<close> and \<^verbatim>\<open>stem\<close> of a final path component, as CPython's
  pathlib computes them: with \<open>i = name.rfind('.')\<close>, the suffix is \<open>name[i:]\<close> when
  \<open>0 < i < len(name) - 1\<close> and the empty string otherwise. Only the last dot counts, so
  the suffix of \<^verbatim>\<open>upload.tar.gz\<close> is \<^verbatim>\<open>.gz\<close>.
\<close>

definition path_suffix :: "string \<Rightarrow> string" where
  "path_suffix name =
     (case rfind_char (CHR ''.'') name of
        None \<Rightarrow> ''''
      | Some i \<Rightarrow> if 0 < i \<and> Suc i < length name then drop i name else '''')"

definition path_stem :: "string \<Rightarrow> string" where
  "path_stem name =
     (case rfind_char (CHR ''.'') name of
        None \<Rightarrow> name
      | Some i \<Rightarrow> if 0 < i \<and> Suc i < length name then take i name else name)"

section \<open>Exceptions, archives and the process-wide capability flags\<close>

text \<open>
  Every exception the service raises or receives from a library is a value. All of them
  are subclasses of Python's \<^verbatim>\<open>Exception\<close>. \<open>BadZipFile\<close> is \<^verbatim>\<open>zipfile.BadZipFile\<close>,
  \<open>ReadError\<close> is \<^verbatim>\<open>tarfile.ReadError\<close> or \<^verbatim>\<open>shutil.ReadError\<close>, \<open>TimeoutExpired\<close> and
  \<open>CalledProcessError\<close> are those of \<^verbatim>\<open>subprocess\<close>.
\<close>

datatype exn =
    ValueError string
  | RuntimeError string
  | FileNotFoundError string
  | PermissionError string
  | BadZipFile string
  | ReadError string
  | TimeoutExpired
  | CalledProcessError int
  | OtherException string

text \<open>\<^verbatim>\<open>str(e)\<close>.\<close>

fun str_exn :: "exn \<Rightarrow> string" where
  "str_exn (ValueError m) = m"
| "str_exn (RuntimeError m) = m"
| "str_exn (FileNotFoundError m) = m"
| "str_exn (PermissionError m) = m"
| "str_exn (BadZipFile m) = m"
| "str_exn (ReadError m) = m"
| "str_exn TimeoutExpired = ''Command timed out after 300 seconds''"
| "str_exn (CalledProcessError rc) = ''Command returned non-zero exit status''"
| "str_exn (OtherException m) = m"

text \<open>\<^verbatim>\<open>isinstance(e, ValueError)\<close>, for the handler \<^verbatim>\<open>except ValueError\<close>.\<close>

fun is_ValueError :: "exn \<Rightarrow> bool" where
  "is_ValueError (ValueError m) = True"
| "is_ValueError e = False"

text \<open>
  The bytes of an uploaded file are not parsed here: the byte-level codecs are libraries.
  A file is what the codecs make of it: bytes that are no archive, or a container of one
  of the four kinds with its members in archive order. A member is its path inside the
  archive, its data, and whether its stored data is intact (the checksum matches and
  the data is complete).
\<close>

datatype member = Member (mpath: "string list") (mdata: string) (mintact: bool)

datatype payload =
    Bytes string
  | ZipData "member list"
  | TarData "member list"
  | RarData "member list"
  | SevenZData "member list"

text \<open>\<^verbatim>\<open>len(content)\<close> is only ever compared with zero; a container is never empty.\<close>

fun payload_empty :: "payload \<Rightarrow> bool" where
  "payload_empty (Bytes s) = (s = [])"
| "payload_empty p = False"

text \<open>
  A directory tree: a file with its name and text, or a directory with its name and its
  entries, in the order in which the operating system lists them (\<^verbatim>\<open>os.scandir\<close>).
\<close>

datatype node = File string string | Dir string "node list"

fun node_name :: "node \<Rightarrow> string" where
  "node_name (File n c) = n"
| "node_name (Dir n cs) = n"

text \<open>
  \<^verbatim>\<open>MAGIC_SUPPORTED\<close>, \<^verbatim>\<open>RAR_SUPPORTED\<close> and \<^verbatim>\<open>SEVENZ_SUPPORTED\<close> are set once, when the
  module is imported (lines 13 to 32).
\<close>

record config =
  MAGIC_SUPPORTED :: bool
  RAR_SUPPORTED :: bool
  SEVENZ_SUPPORTED :: bool

text \<open>
  What the service calls outside itself, as parameters: \<^verbatim>\<open>magic.from_file\<close>,
  werkzeug's \<^verbatim>\<open>secure_filename\<close>, \<^verbatim>\<open>subprocess.run\<close> with its 300 second timeout (the
  argument list and the workspace go in; the exit code or the exception raised comes out,
  each with the workspace as the child process left it), \<^verbatim>\<open>shutil.unpack_archive\<close>,
  flask's \<^verbatim>\<open>send_file\<close>, which files the operating system refuses to remove, the
  interpreter path \<^verbatim>\<open>sys.executable\<close> and the directory name that \<^verbatim>\<open>tempfile.mkdtemp\<close>
  returns for the workspace.
\<close>

datatype run_result = Completed int "node list" | Raised exn "node list"

record env =
  magic_from_file :: "payload \<Rightarrow> exn + string"
  secure_filename :: "string \<Rightarrow> string"
  subprocess_run :: "string list \<Rightarrow> node list \<Rightarrow> run_result"
  unpack_archive :: "string \<Rightarrow> payload \<Rightarrow> node list \<Rightarrow> exn option \<times> node list"
  send_file :: "string list \<Rightarrow> exn option"
  unlink_fails :: "string \<Rightarrow> exn option"
  remove_fails :: "string list \<Rightarrow> bool"
  sys_executable :: string
  workdir_name :: string

section \<open>FormatDetector\<close>

definition SUPPORTED_EXTENSIONS :: "string list" where
  "SUPPORTED_EXTENSIONS =
     [''.zip'', ''.tar'', ''.tar.gz'', ''.tar.bz2'', ''.tar.xz'', ''.rar'', ''.7z'']"

definition ARCHIVE_MIMES :: "(string \<times> string) list" where
  "ARCHIVE_MIMES =
     [(''application/zip'', ''.zip''),
      (''application/x-zip-compressed'', ''.zip''),
      (''application/x-tar'', ''.tar''),
      (''application/x-gtar'', ''.tar''),
      (''application/x-rar-compressed'', ''.rar''),
      (''application/x-7z-compressed'', ''.7z''),
      (''application/x-bzip2'', ''.tar.bz2''),
      (''application/x-xz'', ''.tar.xz'')]"

text \<open>
  A file on disk, as the detector sees it: the final component of its path, and its
  content, \<open>None\<close> when no file is at that path.
\<close>

type_synonym file_at = "string \<times> payload option"

text \<open>Lines 65 to 76: the fallback of \<^verbatim>\<open>detect_file_type\<close> on the extension.\<close>

definition extension_type :: "string \<Rightarrow> string" where
  "extension_type name =
     (let suffix = lower (path_suffix name)
      in if suffix = ''.zip'' then ''application/zip''
         else if suffix \<in> set [''.tar'', ''.tar.gz'', ''.tar.bz2'', ''.tar.xz'']
           then ''application/x-tar''
         else if suffix = ''.rar'' then ''application/x-rar-compressed''
         else if suffix = ''.7z'' then ''application/x-7z-compressed''
         else ''application/octet-stream'')"

text \<open>
  \<^verbatim>\<open>detect_file_type\<close> (lines 55 to 76). \<^verbatim>\<open>magic.from_file\<close> on a path with no file
  raises, which the handler of line 62 turns into the fallback.
\<close>

definition detect_file_type :: "config \<Rightarrow> env \<Rightarrow> file_at \<Rightarrow> string" where
  "detect_file_type cfg ev f =
     (if MAGIC_SUPPORTED cfg then
        (case (case snd f of
                 None \<Rightarrow> Inl (FileNotFoundError (fst f))
               | Some p \<Rightarrow> magic_from_file ev p) of
           Inr mime \<Rightarrow> mime
         | Inl e \<Rightarrow> extension_type (fst f))
      else extension_type (fst f))"

text \<open>\<^verbatim>\<open>is_archive_file\<close> (lines 78 to 102).\<close>

definition is_archive_file :: "config \<Rightarrow> env \<Rightarrow> file_at \<Rightarrow> bool" where
  "is_archive_file cfg ev f =
     (let mime_type = detect_file_type cfg ev f;
          extension = lower (path_suffix (fst f));
          filename = lower (fst f)
      in if mime_type \<in> set (map fst ARCHIVE_MIMES) then True
         else if extension \<in> set SUPPORTED_EXTENSIONS then True
         else if endswith filename ''.tar.gz'' \<or> endswith filename ''.tar.bz2''
                 \<or> endswith filename ''.tar.xz'' then True
         else False)"

section \<open>The workspace as a directory tree\<close>

text \<open>
  Paths inside the workspace are lists of components, relative to its root.
  \<^verbatim>\<open>Path.exists\<close> holds of files and of directories alike.
\<close>

fun children :: "node \<Rightarrow> node list" where
  "children (File n c) = []"
| "children (Dir n cs) = cs"

fun lookup :: "string list \<Rightarrow> node list \<Rightarrow> node option" where
  "lookup [] ns = None"
| "lookup [n] ns = find (\<lambda>x. node_name x = n) ns"
| "lookup (n # p) ns =
     (case find (\<lambda>x. node_name x = n) ns of
        Some (Dir d cs) \<Rightarrow> lookup p cs
      | _ \<Rightarrow> None)"

definition path_exists :: "node list \<Rightarrow> string list \<Rightarrow> bool" where
  "path_exists t p = (lookup p t \<noteq> None)"

text \<open>
  \<^verbatim>\<open>open(path, 'r', encoding='utf-8', errors='ignore').read()\<close>: the text of a file;
  opening a directory or a missing path raises.
\<close>

definition read_text :: "node list \<Rightarrow> string list \<Rightarrow> exn + string" where
  "read_text t p =
     (case lookup p t of
        None \<Rightarrow> Inl (FileNotFoundError ''No such file or directory'')
      | Some (Dir d cs) \<Rightarrow> Inl (OtherException ''Is a directory'')
      | Some (File n c) \<Rightarrow> Inr c)"

text \<open>
  Writing a file at a path creates the missing parent directories and replaces an entry
  of the same name.
\<close>

fun write_file :: "string list \<Rightarrow> string \<Rightarrow> node list \<Rightarrow> node list" where
  "write_file [] d ns = ns"
| "write_file [n] d ns =
     (if \<exists>x \<in> set ns. node_name x = n
      then map (\<lambda>x. if node_name x = n then File n d else x) ns
      else ns @ [File n d])"
| "write_file (n # p) d ns =
     (if \<exists>x \<in> set ns. node_name x = n
      then map (\<lambda>x. if node_name x = n then Dir n (write_file p d (children x)) else x) ns
      else ns @ [Dir n (write_file p d [])])"

text \<open>
  \<^verbatim>\<open>Path.glob("*" + ext)\<close> on a directory: the entries, files and directories, whose
  name ends with \<open>ext\<close>, in listing order. pathlib, unlike the shell, does not hide
  names that begin with a dot.
\<close>

definition glob_here :: "string \<Rightarrow> string list \<Rightarrow> node list \<Rightarrow> string list list" where
  "glob_here ext pre ns =
     map (\<lambda>x. pre @ [node_name x]) (filter (\<lambda>x. endswith (node_name x) ext) ns)"

text \<open>
  \<^verbatim>\<open>Path.glob("**/*" + ext)\<close>: pathlib's recursive selector yields the directory itself
  first and then each subdirectory, in listing order and recursively; in every
  directory it yields, the entries whose name matches are selected. The result is the
  pre-order walk: the matches in the root before those of any subdirectory.
\<close>

fun glob_sub :: "string \<Rightarrow> string list \<Rightarrow> node \<Rightarrow> string list list"
  and glob_rec :: "string \<Rightarrow> string list \<Rightarrow> node list \<Rightarrow> string list list" where
  "glob_sub ext pre (File n c) = []"
| "glob_sub ext pre (Dir d cs) = glob_rec ext (pre @ [d]) cs"
| "glob_rec ext pre ns = glob_here ext pre ns @ concat (map (glob_sub ext pre) ns)"

text \<open>
  \<^verbatim>\<open>shutil.rmtree(path, ignore_errors=True)\<close>: every file is unlinked and every directory
  removed once it is empty; a removal that the operating system refuses is skipped, and
  what could not be removed stays. The result is \<open>None\<close> when the directory is gone.
\<close>

fun rm_node :: "(string list \<Rightarrow> bool) \<Rightarrow> string list \<Rightarrow> node \<Rightarrow> node option"
  and rm_nodes :: "(string list \<Rightarrow> bool) \<Rightarrow> string list \<Rightarrow> node list \<Rightarrow> node list" where
  "rm_node fails pre (File n c) = (if fails (pre @ [n]) then Some (File n c) else None)"
| "rm_node fails pre (Dir n cs) =
     (let cs' = rm_nodes fails (pre @ [n]) cs
      in if cs' = [] \<and> \<not> fails (pre @ [n]) then None else Some (Dir n cs'))"
| "rm_nodes fails pre [] = []"
| "rm_nodes fails pre (x # xs) =
     (case rm_node fails pre x of
        None \<Rightarrow> rm_nodes fails pre xs
      | Some x' \<Rightarrow> x' # rm_nodes fails pre xs)"

definition rmtree :: "(string list \<Rightarrow> bool) \<Rightarrow> node list \<Rightarrow> node list option" where
  "rmtree fails t =
     (let t' = rm_nodes fails [] t
      in if t' = [] \<and> \<not> fails [] then None else Some t')"

section \<open>The archive libraries\<close>

text \<open>
  The constructors \<^verbatim>\<open>zipfile.ZipFile\<close>, \<^verbatim>\<open>tarfile.open(path, 'r:*')\<close>,
  \<^verbatim>\<open>rarfile.RarFile\<close> and \<^verbatim>\<open>py7zr.SevenZipFile\<close> raise on a file that is not a
  container of their kind, each with its own exception.
\<close>

definition zip_open :: "payload \<Rightarrow> exn + member list" where
  "zip_open p =
     (case p of ZipData ms \<Rightarrow> Inr ms | _ \<Rightarrow> Inl (BadZipFile ''File is not a zip file''))"

definition tar_open :: "payload \<Rightarrow> exn + member list" where
  "tar_open p =
     (case p of
        TarData ms \<Rightarrow> Inr ms
      | _ \<Rightarrow> Inl (ReadError ''file could not be opened successfully''))"

definition rar_open :: "payload \<Rightarrow> exn + member list" where
  "rar_open p =
     (case p of RarData ms \<Rightarrow> Inr ms | _ \<Rightarrow> Inl (OtherException ''Not a RAR file''))"

definition sevenz_open :: "payload \<Rightarrow> exn + member list" where
  "sevenz_open p =
     (case p of SevenZData ms \<Rightarrow> Inr ms | _ \<Rightarrow> Inl (OtherException ''not a 7z file''))"

text \<open>
  \<^verbatim>\<open>ZipFile.testzip()\<close> reads every member and returns the name of the first one whose
  checksum fails, or \<^verbatim>\<open>None\<close>. It reports a damaged member through its result and does
  not raise for it.
\<close>

definition testzip :: "member list \<Rightarrow> string list option" where
  "testzip ms =
     (case filter (\<lambda>m. \<not> mintact m) ms of [] \<Rightarrow> None | m # _ \<Rightarrow> Some (mpath m))"

text \<open>
  \<^verbatim>\<open>extractall(dest)\<close> writes the members in archive order. At a member whose data is
  damaged the library raises (the exception \<open>e\<close> of its kind) while it copies that member:
  the members before it are on disk, and the file of the damaged member has been created;
  how much of its data was written depends on the library's buffering, and the model
  keeps none of it.
\<close>

fun extractall :: "exn \<Rightarrow> member list \<Rightarrow> node list \<Rightarrow> exn option \<times> node list" where
  "extractall e [] t = (None, t)"
| "extractall e (m # ms) t =
     (if mintact m then extractall e ms (write_file (mpath m) (mdata m) t)
      else (Some e, write_file (mpath m) '''' t))"

section \<open>ArchiveExtractor\<close>

text \<open>The file object of the request: the name the client declared and the bytes sent.\<close>

record upload =
  filename :: string
  content :: payload

text \<open>
  Lines 223 to 228 of \<^verbatim>\<open>save_uploaded_file\<close>: for a compound extension the suffix is
  the dot and \<^verbatim>\<open>filename.split('.', 1)[1]\<close>, everything after the first dot of the name
  (a name that ends with one of the three compound extensions has a dot).
\<close>

definition upload_suffix :: "string \<Rightarrow> string" where
  "upload_suffix name =
     (if endswith name ''.tar.gz'' \<or> endswith name ''.tar.bz2'' \<or> endswith name ''.tar.xz''
      then ''.'' @ drop (Suc (length (takeWhile (\<lambda>c. c \<noteq> CHR ''.'') name))) name
      else path_suffix name)"

text \<open>
  \<^verbatim>\<open>save_uploaded_file\<close> (lines 219 to 280). The file is written as
  \<^verbatim>\<open>upload<suffix>\<close> in a fresh temporary directory. The result is the saved file, its
  name and content; when the function raises, its handler has removed the file again.
  The value of \<^verbatim>\<open>testzip()\<close> is not used (line 261).
\<close>

definition save_uploaded_file :: "env \<Rightarrow> upload \<Rightarrow> exn + (string \<times> payload)" where
  "save_uploaded_file ev uploaded =
     (let name = secure_filename ev (filename uploaded);
          suffix = upload_suffix name;
          tmp_file = ''upload'' @ suffix
      in if payload_empty (content uploaded) then Inl (ValueError ''Saved file is empty'')
         else if lower suffix = ''.zip'' then
           (case zip_open (content uploaded) of
              Inl e \<Rightarrow> Inl (ValueError (''Invalid ZIP file after save: '' @ str_exn e))
            | Inr ms \<Rightarrow> (let unused = testzip ms in Inr (tmp_file, content uploaded)))
         else Inr (tmp_file, content uploaded))"

text \<open>
  The handler of lines 305 to 307: a \<^verbatim>\<open>BadZipFile\<close> raised anywhere in the
  \<^verbatim>\<open>with\<close> block becomes a \<^verbatim>\<open>ValueError\<close>.
\<close>

fun except_BadZipFile :: "exn \<Rightarrow> exn" where
  "except_BadZipFile (BadZipFile m) = ValueError (''Invalid ZIP file: '' @ m)"
| "except_BadZipFile e = e"

text \<open>
  The routine that \<^verbatim>\<open>extract_archive\<close> hands a file to: the conditions of the
  \<^verbatim>\<open>if\<close>/\<^verbatim>\<open>elif\<close> chain of lines 298, 310, 316 and 324, in the source's order, and
  the \<^verbatim>\<open>else\<close> of line 331. The tar test of line 310 looks at the file name as it is,
  not lowered.
\<close>

datatype routine = ZipRoutine | TarRoutine | RarRoutine | SevenZRoutine | FallbackRoutine

definition routine_of :: "config \<Rightarrow> env \<Rightarrow> file_at \<Rightarrow> routine" where
  "routine_of cfg ev f =
     (let mime_type = detect_file_type cfg ev f;
          suffix = lower (path_suffix (fst f))
      in if mime_type \<in> set [''application/zip'', ''application/x-zip-compressed'']
            \<or> suffix = ''.zip'' then ZipRoutine
         else if contains (lower mime_type) ''tar'' \<or> startswith suffix ''.tar''
                 \<or> endswith (fst f) ''.tar.gz'' \<or> endswith (fst f) ''.tar.bz2''
                 \<or> endswith (fst f) ''.tar.xz'' then TarRoutine
         else if mime_type = ''application/x-rar-compressed'' \<or> suffix = ''.rar''
           then RarRoutine
         else if mime_type = ''application/x-7z-compressed'' \<or> suffix = ''.7z''
           then SevenZRoutine
         else FallbackRoutine)"

text \<open>
  \<^verbatim>\<open>extract_archive\<close> (lines 282 to 338): the exception raised, if any, and the
  destination directory as the call leaves it. The outer handler of line 336 logs and
  re-raises. The value of \<^verbatim>\<open>testzip()\<close> is not used (line 302).
\<close>

definition extract_archive ::
  "config \<Rightarrow> env \<Rightarrow> file_at \<Rightarrow> node list \<Rightarrow> exn option \<times> node list" where
  "extract_archive cfg ev f dest =
     (if \<not> is_archive_file cfg ev f
      then (Some (ValueError (''Unsupported archive format: '' @ path_suffix (fst f))), dest)
      else
        (case snd f of
           None \<Rightarrow> (Some (FileNotFoundError (''Archive file not found: '' @ fst f)), dest)
         | Some p \<Rightarrow>
             (case routine_of cfg ev f of
                ZipRoutine \<Rightarrow>
                  (case zip_open p of
                     Inl e \<Rightarrow> (Some (except_BadZipFile e), dest)
                   | Inr ms \<Rightarrow>
                       (let unused = testzip ms
                        in case extractall (BadZipFile ''Bad CRC-32'') ms dest of
                             (None, t) \<Rightarrow> (None, t)
                           | (Some e, t) \<Rightarrow> (Some (except_BadZipFile e), t)))
              | TarRoutine \<Rightarrow>
                  (case tar_open p of
                     Inl e \<Rightarrow> (Some e, dest)
                   | Inr ms \<Rightarrow> extractall (ReadError ''unexpected end of data'') ms dest)
              | RarRoutine \<Rightarrow>
                  (if \<not> RAR_SUPPORTED cfg
                   then (Some (RuntimeError
                           ''RAR format not supported (rarfile module not available)''), dest)
                   else (case rar_open p of
                           Inl e \<Rightarrow> (Some e, dest)
                         | Inr ms \<Rightarrow> extractall (OtherException ''Corrupt file'') ms dest))
              | SevenZRoutine \<Rightarrow>
                  (if \<not> SEVENZ_SUPPORTED cfg
                   then (Some (RuntimeError
                           ''7Z format not supported (py7zr module not available)''), dest)
                   else (case sevenz_open p of
                           Inl e \<Rightarrow> (Some e, dest)
                         | Inr ms \<Rightarrow> extractall (OtherException ''CRC error'') ms dest))
              | FallbackRoutine \<Rightarrow> unpack_archive ev (fst f) p dest)))"

section \<open>CompilationPipeline\<close>

definition backslash :: char where
  "backslash = CHR 0x5C"

definition newline :: char where
  "newline = CHR 0x0A"

text \<open>\<^verbatim>\<open>str(work_dir / ...)\<close>: the workspace's own path, then the components.\<close>

definition path_str :: "env \<Rightarrow> string list \<Rightarrow> string" where
  "path_str ev p = workdir_name ev @ concat (map (\<lambda>c. ''/'' @ c) p)"

text \<open>The three argument lists of lines 113 to 123, 156 to 161 and 175 to 184.\<close>

definition first_pass_args :: "env \<Rightarrow> string list \<Rightarrow> string list" where
  "first_pass_args ev tex_path =
     [''latexmk'', ''-synctex=1'', ''-interaction=nonstopmode'', ''-file-line-error'',
      ''-pdf'', ''-f'', ''-outdir='' @ workdir_name ev, ''--shell-escape'',
      path_str ev tex_path]"

definition pythontex_args :: "env \<Rightarrow> string list \<Rightarrow> string list" where
  "pythontex_args ev tex_path =
     [''pythontex'', ''--interpreter'', ''python:'' @ sys_executable ev,
      path_str ev [last tex_path]]"

definition final_pass_args :: "env \<Rightarrow> string list \<Rightarrow> string list" where
  "final_pass_args ev tex_path =
     [''latexmk'', ''-synctex=1'', ''-interaction=nonstopmode'', ''-file-line-error'',
      ''-pdf'', ''-outdir='' @ workdir_name ev, ''--shell-escape'',
      path_str ev tex_path]"

text \<open>
  Lines 133 to 150: the two checks after the first pass. The first is the glob for
  \<^verbatim>\<open>*.pytxcode\<close> in the workspace root, the second reads the entry document; a
  document that cannot be read leaves the flag as the first check set it.
\<close>

definition pytxcode_check :: "node list \<Rightarrow> bool" where
  "pytxcode_check t = (glob_here ''.pytxcode'' [] t \<noteq> [])"

definition source_text_check :: "string \<Rightarrow> bool" where
  "source_text_check tex_content =
     (contains tex_content (backslash # ''usepackage{pythontex}'')
      \<or> contains tex_content (backslash # ''usepackage['') \<and> contains tex_content ''pythontex'')"

definition needs_pythontex :: "node list \<Rightarrow> string list \<Rightarrow> bool" where
  "needs_pythontex t tex_path =
     (let needs = pytxcode_check t
      in case read_text t tex_path of
           Inl e \<Rightarrow> needs
         | Inr tex_content \<Rightarrow> if source_text_check tex_content then True else needs)"

text \<open>
  The \<^verbatim>\<open>try\<close> block of \<^verbatim>\<open>compile_latex\<close> (lines 110 to 203): what it returns or
  raises, the workspace afterwards, and the argument lists of the child processes it
  started, in order.
\<close>

definition compile_latex_try ::
  "env \<Rightarrow> string list \<Rightarrow> string list \<Rightarrow> node list
     \<Rightarrow> (exn + bool) \<times> node list \<times> string list list" where
  "compile_latex_try ev tex_path output_path t =
     (let c1 = first_pass_args ev tex_path
      in case subprocess_run ev c1 t of
           Raised e t1 \<Rightarrow> (Inl e, t1, [c1])
         | Completed rc1 t1 \<Rightarrow>
             if needs_pythontex t1 tex_path then
               (let c2 = pythontex_args ev tex_path
                in case subprocess_run ev c2 t1 of
                     Raised e t2 \<Rightarrow> (Inl e, t2, [c1, c2])
                   | Completed rc2 t2 \<Rightarrow>
                       (let c3 = final_pass_args ev tex_path
                        in case subprocess_run ev c3 t2 of
                             Raised e t3 \<Rightarrow> (Inl e, t3, [c1, c2, c3])
                           | Completed rc3 t3 \<Rightarrow>
                               if rc3 \<noteq> 0 \<and> \<not> path_exists t3 output_path
                               then (Inr False, t3, [c1, c2, c3])
                               else (Inr (path_exists t3 output_path), t3, [c1, c2, c3])))
             else if rc1 \<noteq> 0 \<and> \<not> path_exists t1 output_path
               then (Inr False, t1, [c1])
             else (Inr (path_exists t1 output_path), t1, [c1]))"

text \<open>The three handlers of lines 205 to 217, in the source's order.\<close>

fun compile_latex_except :: "exn \<Rightarrow> exn + bool" where
  "compile_latex_except TimeoutExpired = Inr False"
| "compile_latex_except (CalledProcessError rc) = Inr False"
| "compile_latex_except e = Inr False"

text \<open>\<^verbatim>\<open>compile_latex\<close> (lines 104 to 217).\<close>

definition compile_latex ::
  "env \<Rightarrow> string list \<Rightarrow> string list \<Rightarrow> node list
     \<Rightarrow> (exn + bool) \<times> node list \<times> string list list" where
  "compile_latex ev tex_path output_path t =
     (case compile_latex_try ev tex_path output_path t of
        (Inl e, t', cs) \<Rightarrow> (compile_latex_except e, t', cs)
      | (Inr b, t', cs) \<Rightarrow> (Inr b, t', cs))"

section \<open>DiagnosticExtractor\<close>

text \<open>
  Lines 402 to 416: the message of the response when the compilation has failed. The
  handler of line 415 swallows a failure to read the log.
\<close>

definition error_info :: "node list \<Rightarrow> string" where
  "error_info t =
     (case glob_here ''.log'' [] t of
        [] \<Rightarrow> ''LaTeX compilation failed''
      | log_file # others \<Rightarrow>
          (case read_text t log_file of
             Inl e \<Rightarrow> ''LaTeX compilation failed''
           | Inr log_content \<Rightarrow>
               if contains log_content ''! '' then
                 (case filter (\<lambda>line. startswith line ''! '') (split_on newline log_content) of
                    [] \<Rightarrow> ''LaTeX compilation failed''
                  | line # lines \<Rightarrow> ''LaTeX Error: '' @ drop 2 line)
               else ''LaTeX compilation failed''))"

section \<open>The request handler and the workspace's life\<close>

text \<open>
  What the handler returns: a JSON error object with its status code, or the PDF file
  sent as an attachment (its path in the workspace and its download name).
\<close>

datatype response = Json string nat | SendFile "string list" string

text \<open>
  The state a request leaves behind: the workspace directory (\<open>None\<close> when no such
  directory exists), the saved upload (\<open>None\<close> when no such file exists) and the child
  processes started, in order.
\<close>

record state =
  workdir :: "node list option"
  archive :: "(string \<times> payload) option"
  calls :: "string list list"

text \<open>The two handlers of lines 368 to 372.\<close>

definition upload_error :: "exn \<Rightarrow> response" where
  "upload_error e =
     (if is_ValueError e then Json (str_exn e) 400
      else Json (''Failed to extract archive: '' @ str_exn e) 400)"

text \<open>\<^verbatim>\<open>', '.join(sorted(SUPPORTED_EXTENSIONS))\<close>.\<close>

definition supported_formats :: string where
  "supported_formats = ''.7z, .rar, .tar, .tar.bz2, .tar.gz, .tar.xz, .zip''"

text \<open>Lines 374 to 384: the entry document, or \<open>None\<close> when the workspace has none.\<close>

definition main_tex :: "node list \<Rightarrow> string list option" where
  "main_tex t =
     (if path_exists t [''main.tex''] then Some [''main.tex'']
      else (case glob_rec ''.tex'' [] t of
              [] \<Rightarrow> None
            | first # others \<Rightarrow> Some first))"

text \<open>Lines 374 to 418, once the archive is extracted into the workspace \<open>t\<close>.\<close>

definition compile_job ::
  "env \<Rightarrow> string \<times> payload \<Rightarrow> node list \<Rightarrow> (exn + response) \<times> state" where
  "compile_job ev f t =
     (case main_tex t of
        None \<Rightarrow>
          (Inr (Json (''No LaTeX files found. Please ensure your archive contains ''
                      @ ''main.tex or other .tex files.'') 400),
           \<lparr>workdir = Some t, archive = Some f, calls = []\<rparr>)
      | Some tex \<Rightarrow>
          (let pdf_name = path_stem (last tex) @ ''.pdf'';
               pdf_file = [pdf_name]
           in case compile_latex ev tex pdf_file t of
                (Inl e, t', cs) \<Rightarrow> (Inl e, \<lparr>workdir = Some t', archive = Some f, calls = cs\<rparr>)
              | (Inr result, t', cs) \<Rightarrow>
                  if result \<and> path_exists t' pdf_file then
                    (case send_file ev pdf_file of
                       Some e \<Rightarrow> (Inl e, \<lparr>workdir = Some t', archive = Some f, calls = cs\<rparr>)
                     | None \<Rightarrow>
                         (Inr (SendFile pdf_file pdf_name),
                          \<lparr>workdir = Some t', archive = Some f, calls = cs\<rparr>))
                  else
                    (Inr (Json (error_info t') 400),
                     \<lparr>workdir = Some t', archive = Some f, calls = cs\<rparr>)))"

text \<open>
  The \<^verbatim>\<open>try\<close> block of the handler (lines 355 to 418), entered with the fresh, empty
  workspace of line 352.
\<close>

definition endpoint_try :: "config \<Rightarrow> env \<Rightarrow> upload \<Rightarrow> (exn + response) \<times> state" where
  "endpoint_try cfg ev uploaded =
     (case save_uploaded_file ev uploaded of
        Inl e \<Rightarrow> (Inr (upload_error e), \<lparr>workdir = Some [], archive = None, calls = []\<rparr>)
      | Inr f \<Rightarrow>
          (let archive_path = (fst f, Some (snd f))
           in if \<not> is_archive_file cfg ev archive_path then
                (Inr (Json (''Unsupported file format. File: '' @ filename uploaded
                            @ '', Detected type: '' @ detect_file_type cfg ev archive_path
                            @ ''. Supported formats: '' @ supported_formats) 400),
                 \<lparr>workdir = Some [], archive = Some f, calls = []\<rparr>)
              else
                (case extract_archive cfg ev archive_path [] of
                   (Some e, t) \<Rightarrow>
                     (Inr (upload_error e), \<lparr>workdir = Some t, archive = Some f, calls = []\<rparr>)
                 | (None, t) \<Rightarrow> compile_job ev f t)))"

text \<open>
  The \<^verbatim>\<open>finally\<close> block (lines 420 to 446). Whatever the removal of the saved upload
  raises is caught and logged (lines 439 to 443); \<^verbatim>\<open>rmtree\<close> runs with
  \<^verbatim>\<open>ignore_errors=True\<close>.
\<close>

definition endpoint_finally :: "env \<Rightarrow> state \<Rightarrow> state" where
  "endpoint_finally ev s =
     (let s1 = (case archive s of
                  None \<Rightarrow> s
                | Some f \<Rightarrow>
                    (case unlink_fails ev (fst f) of
                       Some e \<Rightarrow> s
                     | None \<Rightarrow> s\<lparr>archive := None\<rparr>))
      in case workdir s1 of
           None \<Rightarrow> s1
         | Some t \<Rightarrow> s1\<lparr>workdir := rmtree (remove_fails ev) t\<rparr>)"

text \<open>
  \<^verbatim>\<open>compile_latex_endpoint\<close> (lines 340 to 446): the response returned or the
  exception that leaves the handler, and the state afterwards. A request is the uploaded
  file object, \<open>None\<close> when the form has no field \<^verbatim>\<open>file\<close>. The two early returns of
  lines 343 to 349 come before the workspace is created.
\<close>

definition compile_latex_endpoint ::
  "config \<Rightarrow> env \<Rightarrow> upload option \<Rightarrow> (exn + response) \<times> state" where
  "compile_latex_endpoint cfg ev request =
     (case request of
        None \<Rightarrow>
          (Inr (Json ''No file uploaded'' 400), \<lparr>workdir = None, archive = None, calls = []\<rparr>)
      | Some uploaded \<Rightarrow>
          if filename uploaded = '''' then
            (Inr (Json ''No file selected'' 400),
             \<lparr>workdir = None, archive = None, calls = []\<rparr>)
          else
            (case endpoint_try cfg ev uploaded of
               (r, s) \<Rightarrow> (r, endpoint_finally ev s)))"

section \<open>Scenarios\<close>

text \<open>
  A process without the optional libraries, and an environment in which content sniffing
  is of no help, no removal is refused and the toolchain behaves as \<open>run\<close> says.
\<close>

definition bare_config :: config where
  "bare_config = \<lparr>MAGIC_SUPPORTED = False, RAR_SUPPORTED = False, SEVENZ_SUPPORTED = False\<rparr>"

definition scenario_env :: "(string list \<Rightarrow> node list \<Rightarrow> run_result) \<Rightarrow> env" where
  "scenario_env run =
     \<lparr>magic_from_file = (\<lambda>p. Inl (OtherException ''cannot open'')),
      secure_filename = (\<lambda>n. n),
      subprocess_run = run,
      unpack_archive = (\<lambda>n p t. (Some (ReadError ''Unknown archive format''), t)),
      send_file = (\<lambda>p. None),
      unlink_fails = (\<lambda>n. None),
      remove_fails = (\<lambda>p. False),
      sys_executable = ''/usr/bin/python3'',
      workdir_name = ''/tmp/tmpjob''\<rparr>"

text \<open>A zip archive that holds one document, \<^verbatim>\<open>main.tex\<close>, with the given text.\<close>

definition zip_of_main :: "string \<Rightarrow> upload" where
  "zip_of_main text = \<lparr>filename = ''project.zip'', content = ZipData [Member [''main.tex''] text True]\<rparr>"

text \<open>Toolchains: one that times out, one that fails and leaves a log, one that succeeds.\<close>

definition run_timeout :: "string list \<Rightarrow> node list \<Rightarrow> run_result" where
  "run_timeout c w = Raised TimeoutExpired w"

definition run_fail :: "string list \<Rightarrow> node list \<Rightarrow> run_result" where
  "run_fail c w = Completed 12 w"

definition run_ok :: "string list \<Rightarrow> node list \<Rightarrow> run_result" where
  "run_ok c w = Completed 0 (write_file [''main.pdf''] ''%PDF-1.5'' w)"

text \<open>
  A toolchain whose first pass leaves a \<^verbatim>\<open>.pytxcode\<close> file and exits with 1, whose
  \<^verbatim>\<open>pythontex\<close> run succeeds, and whose final pass writes the PDF and still exits
  with 1.
\<close>

definition run_final_nonzero :: "string list \<Rightarrow> node list \<Rightarrow> run_result" where
  "run_final_nonzero c w =
     (if take 1 c = [''pythontex''] then Completed 0 w
      else if ''-f'' \<in> set c then Completed 1 (write_file [''main.pytxcode''] ''=>PYTHONTEX#'' w)
      else Completed 1 (write_file [''main.pdf''] ''%PDF-1.5'' w))"

text \<open>A document that loads the package, and one that does not.\<close>

definition pythontex_document :: string where
  "pythontex_document =
     backslash # ''documentclass{article}'' @ [newline]
     @ backslash # ''usepackage{pythontex}'' @ [newline]
     @ backslash # ''begin{document}'' @ backslash # ''py{1+1}'' @ backslash # ''end{document}''"

definition plain_document :: string where
  "plain_document =
     backslash # ''documentclass{article}'' @ [newline]
     @ backslash # ''begin{document}Hello'' @ backslash # ''end{document}''"

text \<open>A toolchain whose \<^verbatim>\<open>pythontex\<close> run exceeds the timeout.\<close>

definition run_pythontex_timeout :: "string list \<Rightarrow> node list \<Rightarrow> run_result" where
  "run_pythontex_timeout c w =
     (if take 1 c = [''pythontex''] then Raised TimeoutExpired w else Completed 0 w)"

text \<open>A log as \<^verbatim>\<open>latexmk\<close> leaves it after an undefined macro.\<close>

definition failed_log :: string where
  "failed_log =
     ''This is pdfTeX, Version 3.14159265'' @ [newline]
     @ ''! Undefined control sequence.'' @ [newline]
     @ ''l.3 '' @ backslash # ''foo'' @ [newline]
     @ ''! Emergency stop.'' @ [newline]"


definition rar_upload :: file_at where
  "rar_upload = (''upload.rar'', Some (RarData [Member [''main.tex''] plain_document True]))"

definition sevenz_upload :: file_at where
  "sevenz_upload = (''upload.7z'', Some (SevenZData [Member [''main.tex''] plain_document True]))"


definition text_as_tar :: file_at where
  "text_as_tar = (''upload.tar'', Some (Bytes ''just some notes''))"



text \<open>
  Stated from the words of the entry-resolution rule, for comparison with the search of
  the code: the names of the files, and of the files only, that exist anywhere in a
  workspace.
\<close>

fun file_names_of :: "node \<Rightarrow> string list"
  and file_names :: "node list \<Rightarrow> string list" where
  "file_names_of (File n c) = [n]"
| "file_names_of (Dir n cs) = file_names cs"
| "file_names [] = []"
| "file_names (x # xs) = file_names_of x @ file_names xs"






text \<open>
  A document that loads the package in a list of packages, a process in which the RAR
  and 7z libraries are present, and a RAR and a 7z archive whose second member is
  damaged.
\<close>

definition package_list_document :: string where
  "package_list_document =
     backslash # ''documentclass{article}'' @ [newline]
     @ backslash # ''usepackage{amsmath,pythontex}'' @ [newline]
     @ backslash # ''begin{document}'' @ backslash # ''py{1+1}'' @ backslash # ''end{document}''"




text \<open>
  An environment in which \<^verbatim>\<open>send_file\<close> raises, and one in which the operating
  system refuses every removal.
\<close>

definition send_file_raises :: env where
  "send_file_raises = (scenario_env run_ok)\<lparr>send_file := (\<lambda>p. Some (OtherException ''Broken pipe''))\<rparr>"

definition removals_refused :: env where
  "removals_refused =
     (scenario_env run_fail)\<lparr>unlink_fails := (\<lambda>n. Some (PermissionError ''Access is denied'')),
                              remove_fails := (\<lambda>p. True)\<rparr>"

text \<open>A request whose file is plain text under a name that is no archive name.\<close>

definition text_upload :: upload where
  "text_upload = \<lparr>filename = ''notes.txt'', content = Bytes ''just some notes''\<rparr>"

section \<open>Evaluation rules\<close>

lemmas string_defs = lower_def lower_char_def startswith_def endswith_def path_suffix_def
  path_stem_def rfind_char_def

lemmas detect_defs = detect_file_type_def is_archive_file_def extension_type_def
  ARCHIVE_MIMES_def SUPPORTED_EXTENSIONS_def

section \<open>FormatDetector: the extension fallback\<close>

text \<open>
  C4. The fallback of \<^verbatim>\<open>detect_file_type\<close> lists the compound suffixes
  \<^verbatim>\<open>.tar.gz\<close>, \<^verbatim>\<open>.tar.bz2\<close> and \<^verbatim>\<open>.tar.xz\<close> next to \<^verbatim>\<open>.tar\<close>, but it compares
  them with \<^verbatim>\<open>Path.suffix\<close>, which is the last suffix only. Without content sniffing,
  \<^verbatim>\<open>upload.tar.gz\<close> is therefore given the generic type
  \<^verbatim>\<open>application/octet-stream\<close> and not the tar type, while \<^verbatim>\<open>is_archive_file\<close>, which
  tests the whole file name, accepts the same file.
\<close>

theorem detect_file_type_compound_suffix:
  "detect_file_type \<lparr>MAGIC_SUPPORTED = False, RAR_SUPPORTED = r, SEVENZ_SUPPORTED = z\<rparr> ev
       (''upload.tar.gz'', p) = ''application/octet-stream''
   \<and> is_archive_file \<lparr>MAGIC_SUPPORTED = False, RAR_SUPPORTED = r, SEVENZ_SUPPORTED = z\<rparr> ev
       (''upload.tar.gz'', p)"
  by (simp add: detect_defs string_defs)

section \<open>CompilationPipeline: the result of \<^verbatim>\<open>compile_latex\<close>\<close>

lemma compile_latex_except_False: "compile_latex_except e = Inr False"
  by (cases e) simp_all

lemma compile_latex_try_completes:
  assumes "\<forall>c w. \<exists>rc w'. subprocess_run ev c w = Completed rc w'"
    and "compile_latex_try ev tex_path output_path t = (r, t', cs)"
  shows "r = Inr (path_exists t' output_path)"
proof -
  have never: "subprocess_run ev c w \<noteq> Raised e w'" for c w e w'
    using assms(1) by (metis run_result.distinct(1))
  show ?thesis
    using assms(2) never unfolding compile_latex_try_def Let_def
    by (auto split: run_result.splits if_splits)
qed

text \<open>
  C10. \<^verbatim>\<open>compile_latex\<close> always returns a Boolean, and whenever its \<^verbatim>\<open>try\<close> block
  raises, whether a timeout, a called-process error or any other exception, the Boolean
  is \<^verbatim>\<open>False\<close>: no exception reaches the caller.
\<close>

theorem compile_latex_total:
  "(\<exists>b. fst (compile_latex ev tex_path output_path t) = Inr b)
   \<and> (\<forall>e. fst (compile_latex_try ev tex_path output_path t) = Inl e
          \<longrightarrow> fst (compile_latex ev tex_path output_path t) = Inr False)"
  by (auto simp: compile_latex_def compile_latex_except_False split: prod.splits sum.splits)

theorem compile_latex_total_witness:
  "fst (compile_latex_try (scenario_env run_timeout) [''main.tex''] [''main.pdf''] [])
     = Inl TimeoutExpired
   \<and> fst (compile_latex (scenario_env run_timeout) [''main.tex''] [''main.pdf''] [])
     = Inr False"
  using compile_latex_total [of "scenario_env run_timeout" "[''main.tex'']" "[''main.pdf'']" "[]"]
  by (simp add: compile_latex_try_def scenario_env_def run_timeout_def)

lemmas pipeline_defs = compile_latex_def compile_latex_try_def needs_pythontex_def
  pytxcode_check_def source_text_check_def glob_here_def read_text_def path_exists_def
  first_pass_args_def pythontex_args_def final_pass_args_def path_str_def
  backslash_def newline_def

text \<open>
  C1. When every pass runs to completion, whatever its exit code, \<^verbatim>\<open>compile_latex\<close>
  returns \<^verbatim>\<open>True\<close> exactly when the target PDF exists in the workspace as the last pass
  left it.
\<close>

theorem success_iff_artifact_exists:
  assumes "\<forall>c w. \<exists>rc w'. subprocess_run ev c w = Completed rc w'"
  shows "case compile_latex ev tex_path output_path t of
           (result, t', cs) \<Rightarrow> result = Inr (path_exists t' output_path)"
proof -
  obtain r t' cs where tr: "compile_latex_try ev tex_path output_path t = (r, t', cs)"
    by (cases "compile_latex_try ev tex_path output_path t") auto
  from compile_latex_try_completes [OF assms tr]
  show ?thesis by (simp add: compile_latex_def tr)
qed

text \<open>
  The job of the spec's test: the final pass exits with 1, the PDF exists, and the
  result is \<^verbatim>\<open>True\<close>.
\<close>

theorem success_iff_artifact_exists_witness:
  "(\<forall>c w. \<exists>rc w'. subprocess_run (scenario_env run_final_nonzero) c w = Completed rc w')
   \<and> subprocess_run (scenario_env run_final_nonzero)
        (final_pass_args (scenario_env run_final_nonzero) [''main.tex''])
        [File ''main.tex'' pythontex_document, File ''main.pytxcode'' ''=>PYTHONTEX#'']
      = Completed 1 [File ''main.tex'' pythontex_document, File ''main.pytxcode'' ''=>PYTHONTEX#'',
                     File ''main.pdf'' ''%PDF-1.5'']
   \<and> fst (compile_latex (scenario_env run_final_nonzero) [''main.tex''] [''main.pdf'']
            [File ''main.tex'' pythontex_document]) = Inr True"
proof -
  have complete:
    "\<forall>c w. \<exists>rc w'. subprocess_run (scenario_env run_final_nonzero) c w = Completed rc w'"
    by (simp add: scenario_env_def run_final_nonzero_def)
  have "path_exists (fst (snd (compile_latex (scenario_env run_final_nonzero) [''main.tex'']
            [''main.pdf''] [File ''main.tex'' pythontex_document]))) [''main.pdf'']"
    by (simp add: pipeline_defs scenario_env_def run_final_nonzero_def pythontex_document_def
        string_defs)
  with success_iff_artifact_exists [OF complete, where tex_path = "[''main.tex'']"
      and output_path = "[''main.pdf'']" and t = "[File ''main.tex'' pythontex_document]"]
  have "fst (compile_latex (scenario_env run_final_nonzero) [''main.tex''] [''main.pdf'']
            [File ''main.tex'' pythontex_document]) = Inr True"
    by (simp add: case_prod_unfold)
  moreover have "subprocess_run (scenario_env run_final_nonzero)
        (final_pass_args (scenario_env run_final_nonzero) [''main.tex''])
        [File ''main.tex'' pythontex_document, File ''main.pytxcode'' ''=>PYTHONTEX#'']
      = Completed 1 [File ''main.tex'' pythontex_document, File ''main.pytxcode'' ''=>PYTHONTEX#'',
                     File ''main.pdf'' ''%PDF-1.5'']"
    by (simp add: scenario_env_def run_final_nonzero_def final_pass_args_def path_str_def)
  ultimately show ?thesis using complete by blast
qed

text \<open>
  C2, as the claim states it, fails: a document that loads the package by name in a
  list, \<^verbatim>\<open>\usepackage{amsmath,pythontex}\<close>, passes neither of the two substring tests
  of line 146; when the first pass leaves no \<^verbatim>\<open>*.pytxcode\<close> file, the first pass is
  the only process started.
\<close>

theorem package_list_counterexample:
  "contains package_list_document (backslash # ''usepackage{amsmath,pythontex}'')
   \<and> snd (snd (compile_latex (scenario_env run_fail) [''main.tex''] [''main.pdf'']
                [File ''main.tex'' package_list_document]))
       = [first_pass_args (scenario_env run_fail) [''main.tex'']]"
  by code_simp

text \<open>
  C2, amended. Once the first pass has completed: if the workspace root holds an entry
  whose name ends with \<^verbatim>\<open>.pytxcode\<close>, or if the entry document is a file whose text
  contains \<^verbatim>\<open>\usepackage{pythontex}\<close>, or contains both \<^verbatim>\<open>\usepackage[\<close> and
  \<^verbatim>\<open>pythontex\<close>, then \<^verbatim>\<open>pythontex\<close> is the second process started. If the root holds
  no such entry and the text of the entry document passes neither test, the first pass is
  the only process started: neither the auxiliary nor the final pass runs.
\<close>

theorem auxiliary_pass_from_workspace:
  assumes "subprocess_run ev (first_pass_args ev tex_path) t = Completed rc t1"
  shows "((\<exists>x \<in> set t1. endswith (node_name x) ''.pytxcode'') \<longrightarrow>
            take 2 (snd (snd (compile_latex ev tex_path output_path t)))
              = [first_pass_args ev tex_path, pythontex_args ev tex_path])
       \<and> (lookup tex_path t1 = Some (File n c)
            \<and> (contains c (backslash # ''usepackage{pythontex}'')
                \<or> contains c (backslash # ''usepackage['') \<and> contains c ''pythontex'') \<longrightarrow>
            take 2 (snd (snd (compile_latex ev tex_path output_path t)))
              = [first_pass_args ev tex_path, pythontex_args ev tex_path])
       \<and> ((\<forall>x \<in> set t1. \<not> endswith (node_name x) ''.pytxcode'')
            \<and> (\<forall>n' c'. lookup tex_path t1 = Some (File n' c') \<longrightarrow>
                  \<not> contains c' (backslash # ''usepackage{pythontex}'')
                  \<and> (\<not> contains c' (backslash # ''usepackage['')
                      \<or> \<not> contains c' ''pythontex'')) \<longrightarrow>
            snd (snd (compile_latex ev tex_path output_path t))
              = [first_pass_args ev tex_path])"
proof -
  have started: "take 2 (snd (snd (compile_latex ev tex_path output_path t)))
          = [first_pass_args ev tex_path, pythontex_args ev tex_path]"
    if "needs_pythontex t1 tex_path"
    using assms that
    by (simp add: compile_latex_def compile_latex_try_def Let_def split: run_result.splits)
  have skipped: "snd (snd (compile_latex ev tex_path output_path t))
          = [first_pass_args ev tex_path]"
    if "\<not> needs_pythontex t1 tex_path"
    using assms that
    by (simp add: compile_latex_def compile_latex_try_def Let_def)
  have by_file: "needs_pythontex t1 tex_path"
    if "\<exists>x \<in> set t1. endswith (node_name x) ''.pytxcode''"
    using that
    by (auto simp: needs_pythontex_def pytxcode_check_def glob_here_def filter_empty_conv
        split: sum.splits)
  have by_text: "needs_pythontex t1 tex_path"
    if "lookup tex_path t1 = Some (File n c)"
      and "contains c (backslash # ''usepackage{pythontex}'')
           \<or> contains c (backslash # ''usepackage['') \<and> contains c ''pythontex''"
    using that
    by (auto simp: needs_pythontex_def read_text_def source_text_check_def)
  have neither: "\<not> needs_pythontex t1 tex_path"
    if "\<forall>x \<in> set t1. \<not> endswith (node_name x) ''.pytxcode''"
      and "\<forall>n' c'. lookup tex_path t1 = Some (File n' c') \<longrightarrow>
             \<not> contains c' (backslash # ''usepackage{pythontex}'')
             \<and> (\<not> contains c' (backslash # ''usepackage['') \<or> \<not> contains c' ''pythontex'')"
    using that
    by (auto simp: needs_pythontex_def pytxcode_check_def glob_here_def filter_empty_conv
        read_text_def source_text_check_def split: sum.splits option.splits node.splits)
  show ?thesis
    using started skipped by_file by_text neither by blast
qed

text \<open>
  Three jobs: a plain document whose first pass leaves \<^verbatim>\<open>main.pytxcode\<close>, a document
  that loads the package and a toolchain that leaves no file, and a plain document
  without such a file.
\<close>

theorem auxiliary_pass_from_workspace_witness:
  "subprocess_run (scenario_env run_final_nonzero)
       (first_pass_args (scenario_env run_final_nonzero) [''main.tex''])
       [File ''main.tex'' plain_document]
     = Completed 1 [File ''main.tex'' plain_document, File ''main.pytxcode'' ''=>PYTHONTEX#'']
   \<and> take 2 (snd (snd (compile_latex (scenario_env run_final_nonzero) [''main.tex'']
                        [''main.pdf''] [File ''main.tex'' plain_document])))
       = [first_pass_args (scenario_env run_final_nonzero) [''main.tex''],
          pythontex_args (scenario_env run_final_nonzero) [''main.tex'']]
   \<and> contains pythontex_document (backslash # ''usepackage{pythontex}'')
   \<and> take 2 (snd (snd (compile_latex (scenario_env run_fail) [''main.tex''] [''main.pdf'']
                        [File ''main.tex'' pythontex_document])))
       = [first_pass_args (scenario_env run_fail) [''main.tex''],
          pythontex_args (scenario_env run_fail) [''main.tex'']]
   \<and> contains plain_document ''pythontex'' = False
   \<and> snd (snd (compile_latex (scenario_env run_fail) [''main.tex''] [''main.pdf'']
                [File ''main.tex'' plain_document]))
       = [first_pass_args (scenario_env run_fail) [''main.tex'']]"
proof -
  have r0: "subprocess_run (scenario_env run_final_nonzero)
       (first_pass_args (scenario_env run_final_nonzero) [''main.tex''])
       [File ''main.tex'' plain_document]
     = Completed 1 [File ''main.tex'' plain_document, File ''main.pytxcode'' ''=>PYTHONTEX#'']"
    by code_simp
  have r1: "subprocess_run (scenario_env run_fail)
              (first_pass_args (scenario_env run_fail) [''main.tex''])
              [File ''main.tex'' pythontex_document]
            = Completed 12 [File ''main.tex'' pythontex_document]"
    by (simp add: scenario_env_def run_fail_def)
  have r2: "subprocess_run (scenario_env run_fail)
              (first_pass_args (scenario_env run_fail) [''main.tex''])
              [File ''main.tex'' plain_document]
            = Completed 12 [File ''main.tex'' plain_document]"
    by (simp add: scenario_env_def run_fail_def)
  have f0: "\<exists>x \<in> set [File ''main.tex'' plain_document, File ''main.pytxcode'' ''=>PYTHONTEX#''].
              endswith (node_name x) ''.pytxcode''"
    by (simp add: endswith_def)
  have l1: "lookup [''main.tex''] [File ''main.tex'' pythontex_document]
              = Some (File ''main.tex'' pythontex_document)"
    by simp
  have t1: "contains pythontex_document (backslash # ''usepackage{pythontex}'')"
    by code_simp
  have f2: "\<forall>x \<in> set [File ''main.tex'' plain_document]. \<not> endswith (node_name x) ''.pytxcode''"
    by (simp add: endswith_def)
  have t2: "contains plain_document ''pythontex'' = False"
    by code_simp
  have u2: "contains plain_document (backslash # ''usepackage{pythontex}'') = False"
    by code_simp
  have l2: "\<forall>n' c'. lookup [''main.tex''] [File ''main.tex'' plain_document] = Some (File n' c') \<longrightarrow>
              \<not> contains c' (backslash # ''usepackage{pythontex}'')
              \<and> (\<not> contains c' (backslash # ''usepackage['') \<or> \<not> contains c' ''pythontex'')"
    using t2 u2 by simp
  from auxiliary_pass_from_workspace [OF r0, where output_path = "[''main.pdf'']"] f0
  have c0: "take 2 (snd (snd (compile_latex (scenario_env run_final_nonzero) [''main.tex'']
                        [''main.pdf''] [File ''main.tex'' plain_document])))
       = [first_pass_args (scenario_env run_final_nonzero) [''main.tex''],
          pythontex_args (scenario_env run_final_nonzero) [''main.tex'']]"
    by blast
  from auxiliary_pass_from_workspace [OF r1, where output_path = "[''main.pdf'']"
      and n = "''main.tex''" and c = pythontex_document] l1 t1
  have c1: "take 2 (snd (snd (compile_latex (scenario_env run_fail) [''main.tex''] [''main.pdf'']
                        [File ''main.tex'' pythontex_document])))
       = [first_pass_args (scenario_env run_fail) [''main.tex''],
          pythontex_args (scenario_env run_fail) [''main.tex'']]"
    by blast
  from auxiliary_pass_from_workspace [OF r2, where output_path = "[''main.pdf'']"] f2 l2
  have c2: "snd (snd (compile_latex (scenario_env run_fail) [''main.tex''] [''main.pdf'']
                [File ''main.tex'' plain_document]))
       = [first_pass_args (scenario_env run_fail) [''main.tex'']]"
    by blast
  from r0 c0 t1 c1 t2 c2 show ?thesis by blast
qed

section \<open>Timeouts\<close>

lemmas endpoint_defs = compile_latex_endpoint_def endpoint_try_def endpoint_finally_def
  compile_job_def main_tex_def save_uploaded_file_def upload_suffix_def extract_archive_def
  routine_of_def zip_open_def testzip_def upload_error_def error_info_def rmtree_def

text \<open>
  C3, as the claim states it, fails: a request whose first pass times out is answered
  with the very response of a request whose first pass merely fails, status 400 and the
  generic message. The handler has no separate timeout error.
\<close>

theorem timeout_not_distinct_counterexample:
  "fst (compile_latex_endpoint bare_config (scenario_env run_timeout)
          (Some (zip_of_main plain_document)))
     = Inr (Json ''LaTeX compilation failed'' 400)
   \<and> fst (compile_latex_endpoint bare_config (scenario_env run_fail)
          (Some (zip_of_main plain_document)))
     = Inr (Json ''LaTeX compilation failed'' 400)"
  by code_simp

text \<open>
  C3, amended. When the first pass, the \<^verbatim>\<open>pythontex\<close> run or the final pass raises
  the timeout, no further process is started, and the request is answered as any failed
  compilation is: status 400 with the message that the log scan yields for the workspace
  as the timed-out process left it.
\<close>

theorem timeout_ends_job:
  assumes "main_tex t = Some tex_path"
  shows "(subprocess_run ev (first_pass_args ev tex_path) t = Raised TimeoutExpired t1
            \<longrightarrow> compile_job ev f t
                  = (Inr (Json (error_info t1) 400),
                     \<lparr>workdir = Some t1, archive = Some f,
                        calls = [first_pass_args ev tex_path]\<rparr>))
       \<and> (subprocess_run ev (first_pass_args ev tex_path) t = Completed rc1 t1
            \<and> needs_pythontex t1 tex_path
            \<and> subprocess_run ev (pythontex_args ev tex_path) t1 = Raised TimeoutExpired t2
            \<longrightarrow> compile_job ev f t
                  = (Inr (Json (error_info t2) 400),
                     \<lparr>workdir = Some t2, archive = Some f,
                        calls = [first_pass_args ev tex_path, pythontex_args ev tex_path]\<rparr>))
       \<and> (subprocess_run ev (first_pass_args ev tex_path) t = Completed rc1 t1
            \<and> needs_pythontex t1 tex_path
            \<and> subprocess_run ev (pythontex_args ev tex_path) t1 = Completed rc2 t2
            \<and> subprocess_run ev (final_pass_args ev tex_path) t2 = Raised TimeoutExpired t3
            \<longrightarrow> compile_job ev f t
                  = (Inr (Json (error_info t3) 400),
                     \<lparr>workdir = Some t3, archive = Some f,
                        calls = [first_pass_args ev tex_path, pythontex_args ev tex_path,
                                 final_pass_args ev tex_path]\<rparr>))"
  using assms
  by (simp add: compile_job_def compile_latex_def compile_latex_try_def Let_def)

theorem timeout_ends_job_witness:
  "main_tex [File ''main.tex'' pythontex_document] = Some [''main.tex'']
   \<and> subprocess_run (scenario_env run_pythontex_timeout)
        (first_pass_args (scenario_env run_pythontex_timeout) [''main.tex''])
        [File ''main.tex'' pythontex_document]
       = Completed 0 [File ''main.tex'' pythontex_document]
   \<and> needs_pythontex [File ''main.tex'' pythontex_document] [''main.tex'']
   \<and> subprocess_run (scenario_env run_pythontex_timeout)
        (pythontex_args (scenario_env run_pythontex_timeout) [''main.tex''])
        [File ''main.tex'' pythontex_document]
       = Raised TimeoutExpired [File ''main.tex'' pythontex_document]
   \<and> compile_job (scenario_env run_pythontex_timeout) (''upload.zip'', Bytes ''PK'')
        [File ''main.tex'' pythontex_document]
       = (Inr (Json ''LaTeX compilation failed'' 400),
          \<lparr>workdir = Some [File ''main.tex'' pythontex_document],
             archive = Some (''upload.zip'', Bytes ''PK''),
             calls = [first_pass_args (scenario_env run_pythontex_timeout) [''main.tex''],
                      pythontex_args (scenario_env run_pythontex_timeout) [''main.tex'']]\<rparr>)"
proof -
  have m: "main_tex [File ''main.tex'' pythontex_document] = Some [''main.tex'']"
    by (simp add: main_tex_def path_exists_def)
  have r1: "subprocess_run (scenario_env run_pythontex_timeout)
        (first_pass_args (scenario_env run_pythontex_timeout) [''main.tex''])
        [File ''main.tex'' pythontex_document]
       = Completed 0 [File ''main.tex'' pythontex_document]"
    by (simp add: scenario_env_def run_pythontex_timeout_def first_pass_args_def)
  have n: "needs_pythontex [File ''main.tex'' pythontex_document] [''main.tex'']"
    by (simp add: needs_pythontex_def pytxcode_check_def source_text_check_def glob_here_def
        read_text_def pythontex_document_def backslash_def newline_def string_defs)
  have r2: "subprocess_run (scenario_env run_pythontex_timeout)
        (pythontex_args (scenario_env run_pythontex_timeout) [''main.tex''])
        [File ''main.tex'' pythontex_document]
       = Raised TimeoutExpired [File ''main.tex'' pythontex_document]"
    by (simp add: scenario_env_def run_pythontex_timeout_def pythontex_args_def)
  have e: "error_info [File ''main.tex'' pythontex_document] = ''LaTeX compilation failed''"
    by (simp add: error_info_def glob_here_def string_defs)
  from timeout_ends_job [OF m, where ev = "scenario_env run_pythontex_timeout"
      and ?t1.0 = "[File ''main.tex'' pythontex_document]" and ?rc1.0 = 0
      and ?t2.0 = "[File ''main.tex'' pythontex_document]" and f = "(''upload.zip'', Bytes ''PK'')"]
    m r1 n r2 e
  show ?thesis by simp
qed

section \<open>DiagnosticExtractor: the message\<close>

lemma startswith_append: "startswith s p \<Longrightarrow> \<exists>rest. s = p @ rest"
  unfolding startswith_def by (metis append_take_drop_id)

lemma contains_iff: "contains s sub = (\<exists>pre post. s = pre @ sub @ post)"
proof (induction s)
  case Nil
  then show ?case by simp
next
  case (Cons c cs)
  have "startswith (c # cs) sub = (\<exists>post. c # cs = sub @ post)"
    unfolding startswith_def by (metis append_eq_conv_conj)
  moreover have "(\<exists>pre post. c # cs = pre @ sub @ post)
      = ((\<exists>post. c # cs = sub @ post) \<or> (\<exists>pre post. cs = pre @ sub @ post))"
    by (metis (no_types, opaque_lifting) Cons_eq_append_conv append_Nil)
  ultimately show ?case using Cons.IH by simp
qed

lemma split_on_nonempty: "split_on sep s \<noteq> []"
  by (induction s) (auto split: list.splits)

lemma split_on_first: "split_on sep s = l # ls \<Longrightarrow> \<exists>post. s = l @ post"
proof (induction s arbitrary: l ls)
  case Nil
  then show ?case by simp
next
  case (Cons c cs)
  show ?case
  proof (cases "c = sep")
    case True
    with Cons.prems show ?thesis by simp
  next
    case False
    obtain l' ls' where sp: "split_on sep cs = l' # ls'"
      using split_on_nonempty [of sep cs] by (cases "split_on sep cs") auto
    from Cons.IH [OF sp] obtain post where "cs = l' @ post" by blast
    moreover from False sp Cons.prems have "l = c # l'" by simp
    ultimately show ?thesis by simp
  qed
qed

lemma split_on_line:
  "line \<in> set (split_on sep s) \<Longrightarrow> \<exists>pre post. s = pre @ line @ post"
proof (induction s arbitrary: line)
  case Nil
  then show ?case by simp
next
  case (Cons c cs)
  have later: "\<exists>pre post. c # cs = pre @ x @ post" if "x \<in> set (split_on sep cs)" for x
  proof -
    from Cons.IH [OF that] obtain pre post where "cs = pre @ x @ post" by blast
    then have "c # cs = (c # pre) @ x @ post" by simp
    then show ?thesis by blast
  qed
  show ?case
  proof (cases "c = sep")
    case True
    with Cons.prems have "line = [] \<or> line \<in> set (split_on sep cs)" by auto
    then show ?thesis
    proof
      assume "line = []"
      then have "c # cs = [] @ line @ (c # cs)" by simp
      then show ?thesis by blast
    next
      assume "line \<in> set (split_on sep cs)"
      then show ?thesis by (rule later)
    qed
  next
    case False
    obtain l ls where sp: "split_on sep cs = l # ls"
      using split_on_nonempty [of sep cs] by (cases "split_on sep cs") auto
    with False Cons.prems have "line = c # l \<or> line \<in> set ls" by auto
    then show ?thesis
    proof
      assume line: "line = c # l"
      from split_on_first [OF sp] obtain post where "cs = l @ post" by blast
      with line have "c # cs = [] @ line @ post" by simp
      then show ?thesis by blast
    next
      assume "line \<in> set ls"
      with sp have "line \<in> set (split_on sep cs)" by simp
      then show ?thesis by (rule later)
    qed
  qed
qed

lemma marker_line_contains:
  assumes "line \<in> set (split_on sep s)" and "startswith line p"
  shows "contains s p"
proof -
  from split_on_line [OF assms(1)] obtain pre post where s: "s = pre @ line @ post" by blast
  from startswith_append [OF assms(2)] obtain rest where "line = p @ rest" by blast
  with s have "s = pre @ p @ (rest @ post)" by simp
  then show ?thesis unfolding contains_iff by blast
qed

text \<open>
  C7, as the claim states it, fails: for a log whose first marked line is
  \<^verbatim>\<open>! Undefined control sequence.\<close> the message is not that line without its marker
  but the line with \<^verbatim>\<open>LaTeX Error: \<close> put in front of it.
\<close>

theorem error_info_prefix_counterexample:
  "error_info [File ''main.tex'' plain_document, File ''main.log'' failed_log]
     = ''LaTeX Error: Undefined control sequence.''
   \<and> error_info [File ''main.tex'' plain_document, File ''main.log'' failed_log]
     \<noteq> drop 2 ''! Undefined control sequence.''"
  by code_simp

text \<open>
  C7, amended. The message is \<^verbatim>\<open>LaTeX Error: \<close> followed by the first line of the
  first log file that begins with \<^verbatim>\<open>! \<close>, without these two characters. It is the
  generic \<^verbatim>\<open>LaTeX compilation failed\<close> when the workspace root has no \<^verbatim>\<open>*.log\<close>
  entry, when the first one cannot be read, and when none of its lines begins with the
  marker. The scan is a total function: it raises nothing.
\<close>

theorem error_info_first_marker_line:
  "error_info t =
     (case glob_here ''.log'' [] t of
        [] \<Rightarrow> ''LaTeX compilation failed''
      | log_file # others \<Rightarrow>
          (case read_text t log_file of
             Inl e \<Rightarrow> ''LaTeX compilation failed''
           | Inr log_content \<Rightarrow>
               (case filter (\<lambda>line. startswith line ''! '') (split_on newline log_content) of
                  [] \<Rightarrow> ''LaTeX compilation failed''
                | line # lines \<Rightarrow> ''LaTeX Error: '' @ drop 2 line)))"
proof -
  have "contains log_content ''! ''"
    if "filter (\<lambda>line. startswith line ''! '') (split_on newline log_content) = line # lines"
    for log_content line lines
  proof -
    from that have "line \<in> set (filter (\<lambda>line. startswith line ''! '')
        (split_on newline log_content))" by simp
    then have "line \<in> set (split_on newline log_content)" and "startswith line ''! ''"
      by simp_all
    then show ?thesis by (rule marker_line_contains)
  qed
  then show ?thesis
    by (auto simp: error_info_def split: list.splits sum.splits)
qed

section \<open>ArchiveExtractor: capabilities and rejected input\<close>

lemma rar_routine_is_archive:
  "routine_of cfg ev f = RarRoutine \<Longrightarrow> is_archive_file cfg ev f"
  by (auto simp: routine_of_def is_archive_file_def Let_def ARCHIVE_MIMES_def
      SUPPORTED_EXTENSIONS_def split: if_splits)

lemma sevenz_routine_is_archive:
  "routine_of cfg ev f = SevenZRoutine \<Longrightarrow> is_archive_file cfg ev f"
  by (auto simp: routine_of_def is_archive_file_def Let_def ARCHIVE_MIMES_def
      SUPPORTED_EXTENSIONS_def split: if_splits)

text \<open>
  C8. A file that exists and is dispatched to the RAR routine, or to the 7z routine,
  while the library of that routine is absent from the process: \<^verbatim>\<open>is_archive_file\<close>
  accepts it, and \<^verbatim>\<open>extract_archive\<close> raises a \<^verbatim>\<open>RuntimeError\<close>, which is not the
  \<^verbatim>\<open>ValueError\<close> raised for an unsupported format or an invalid ZIP file, and writes
  nothing to the destination.
\<close>

theorem capability_unavailable:
  assumes "snd f = Some p"
  shows "(routine_of cfg ev f = RarRoutine \<and> \<not> RAR_SUPPORTED cfg \<longrightarrow>
            is_archive_file cfg ev f
            \<and> extract_archive cfg ev f dest
                = (Some (RuntimeError
                     ''RAR format not supported (rarfile module not available)''), dest))
       \<and> (routine_of cfg ev f = SevenZRoutine \<and> \<not> SEVENZ_SUPPORTED cfg \<longrightarrow>
            is_archive_file cfg ev f
            \<and> extract_archive cfg ev f dest
                = (Some (RuntimeError
                     ''7Z format not supported (py7zr module not available)''), dest))
       \<and> (\<forall>m. \<not> is_ValueError (RuntimeError m))"
  using assms rar_routine_is_archive [of cfg ev f] sevenz_routine_is_archive [of cfg ev f]
  by (auto simp: extract_archive_def)

theorem capability_unavailable_witness:
  "routine_of bare_config (scenario_env run_ok) rar_upload = RarRoutine
   \<and> \<not> RAR_SUPPORTED bare_config
   \<and> is_archive_file bare_config (scenario_env run_ok) rar_upload
   \<and> extract_archive bare_config (scenario_env run_ok) rar_upload []
       = (Some (RuntimeError ''RAR format not supported (rarfile module not available)''), [])
   \<and> routine_of bare_config (scenario_env run_ok) sevenz_upload = SevenZRoutine
   \<and> \<not> SEVENZ_SUPPORTED bare_config
   \<and> is_archive_file bare_config (scenario_env run_ok) sevenz_upload
   \<and> extract_archive bare_config (scenario_env run_ok) sevenz_upload []
       = (Some (RuntimeError ''7Z format not supported (py7zr module not available)''), [])"
proof -
  have r: "routine_of bare_config (scenario_env run_ok) rar_upload = RarRoutine"
    by code_simp
  have z: "routine_of bare_config (scenario_env run_ok) sevenz_upload = SevenZRoutine"
    by code_simp
  have c: "\<not> RAR_SUPPORTED bare_config" "\<not> SEVENZ_SUPPORTED bare_config"
    by (simp_all add: bare_config_def)
  have e1: "snd rar_upload = Some (RarData [Member [''main.tex''] plain_document True])"
    by (simp add: rar_upload_def)
  have e2: "snd sevenz_upload = Some (SevenZData [Member [''main.tex''] plain_document True])"
    by (simp add: sevenz_upload_def)
  from capability_unavailable [OF e1, where cfg = bare_config and ev = "scenario_env run_ok"
      and dest = "[]"]
    capability_unavailable [OF e2, where cfg = bare_config and ev = "scenario_env run_ok"
      and dest = "[]"] r z c
  show ?thesis by simp
qed





section \<open>Entry resolution\<close>
















section \<open>The workspace is destroyed on every exit path\<close>

lemma rm_everything:
  "rm_node (\<lambda>p. False) pre x = None"
  "rm_nodes (\<lambda>p. False) pre ns = []"
  by (induction "\<lambda>p::string list. False" pre x and "\<lambda>p::string list. False" pre ns
      rule: rm_node_rm_nodes.induct) simp_all

lemma rmtree_everything: "rmtree (\<lambda>p. False) t = None"
  by (simp add: rmtree_def rm_everything)

lemma finally_destroys:
  assumes "\<forall>p. \<not> remove_fails ev p"
  shows "workdir (endpoint_finally ev s) = None"
proof -
  from assms have "remove_fails ev = (\<lambda>p. False)" by (simp add: fun_eq_iff)
  then show ?thesis
    by (simp add: endpoint_finally_def rmtree_everything Let_def split: option.splits)
qed

text \<open>
  Nothing in the \<^verbatim>\<open>try\<close> block depends on what the removals of the \<^verbatim>\<open>finally\<close>
  block do.
\<close>

lemma detect_file_type_removals:
  "detect_file_type cfg (ev\<lparr>unlink_fails := uf, remove_fails := rf\<rparr>) f = detect_file_type cfg ev f"
  by (simp add: detect_file_type_def split: option.splits)

lemma is_archive_file_removals:
  "is_archive_file cfg (ev\<lparr>unlink_fails := uf, remove_fails := rf\<rparr>) f = is_archive_file cfg ev f"
  by (simp add: is_archive_file_def detect_file_type_removals)

lemma routine_of_removals:
  "routine_of cfg (ev\<lparr>unlink_fails := uf, remove_fails := rf\<rparr>) f = routine_of cfg ev f"
  by (simp add: routine_of_def detect_file_type_removals)

lemma extract_archive_removals:
  "extract_archive cfg (ev\<lparr>unlink_fails := uf, remove_fails := rf\<rparr>) f dest
     = extract_archive cfg ev f dest"
  by (simp add: extract_archive_def is_archive_file_removals routine_of_removals
      split: option.splits routine.splits)

lemma save_uploaded_file_removals:
  "save_uploaded_file (ev\<lparr>unlink_fails := uf, remove_fails := rf\<rparr>) u = save_uploaded_file ev u"
  by (simp add: save_uploaded_file_def)

lemma args_removals:
  "first_pass_args (ev\<lparr>unlink_fails := uf, remove_fails := rf\<rparr>) p = first_pass_args ev p"
  "pythontex_args (ev\<lparr>unlink_fails := uf, remove_fails := rf\<rparr>) p = pythontex_args ev p"
  "final_pass_args (ev\<lparr>unlink_fails := uf, remove_fails := rf\<rparr>) p = final_pass_args ev p"
  by (simp_all add: first_pass_args_def pythontex_args_def final_pass_args_def path_str_def)

lemma compile_latex_removals:
  "compile_latex (ev\<lparr>unlink_fails := uf, remove_fails := rf\<rparr>) tex out t = compile_latex ev tex out t"
  by (simp add: compile_latex_def compile_latex_try_def args_removals Let_def
      split: run_result.splits)

lemma compile_job_removals:
  "compile_job (ev\<lparr>unlink_fails := uf, remove_fails := rf\<rparr>) f t = compile_job ev f t"
  by (simp add: compile_job_def compile_latex_removals Let_def
      split: option.splits prod.splits sum.splits)

lemma endpoint_try_removals:
  "endpoint_try cfg (ev\<lparr>unlink_fails := uf, remove_fails := rf\<rparr>) u = endpoint_try cfg ev u"
  by (simp add: endpoint_try_def save_uploaded_file_removals is_archive_file_removals
      detect_file_type_removals extract_archive_removals compile_job_removals Let_def
      split: option.splits prod.splits sum.splits)

text \<open>
  C6. Whatever the request and whatever the handler returns or raises, the workspace
  directory does not exist afterwards, provided the operating system refuses no removal.
  And the removals never reach the caller: the response returned, or the exception that
  leaves the handler, is the same whichever removals of the \<^verbatim>\<open>finally\<close> block fail.
\<close>

theorem workspace_destroyed:
  "((\<forall>p. \<not> remove_fails ev p) \<longrightarrow>
      workdir (snd (compile_latex_endpoint cfg ev request)) = None)
   \<and> fst (compile_latex_endpoint cfg (ev\<lparr>unlink_fails := uf, remove_fails := rf\<rparr>) request)
       = fst (compile_latex_endpoint cfg ev request)"
proof -
  have "workdir (snd (compile_latex_endpoint cfg ev request)) = None"
    if "\<forall>p. \<not> remove_fails ev p"
    using finally_destroys [OF that]
    by (simp add: compile_latex_endpoint_def split: option.splits prod.splits)
  moreover have "fst (compile_latex_endpoint cfg (ev\<lparr>unlink_fails := uf, remove_fails := rf\<rparr>) request)
       = fst (compile_latex_endpoint cfg ev request)"
    by (simp add: compile_latex_endpoint_def endpoint_try_removals split: option.splits prod.splits)
  ultimately show ?thesis by blast
qed

text \<open>
  The exit paths one by one: the PDF is sent, the upload is no archive, the compilation
  fails, a pass times out, \<^verbatim>\<open>send_file\<close> raises in the middle of the handler. The last
  line is the same failing job when every removal is refused.
\<close>

theorem workspace_destroyed_witness:
  "(\<forall>p. \<not> remove_fails (scenario_env run_ok) p)
   \<and> compile_latex_endpoint bare_config (scenario_env run_ok) (Some (zip_of_main plain_document))
       = (Inr (SendFile [''main.pdf''] ''main.pdf''),
          \<lparr>workdir = None, archive = None,
             calls = [first_pass_args (scenario_env run_ok) [''main.tex'']]\<rparr>)
   \<and> fst (compile_latex_endpoint bare_config (scenario_env run_ok) (Some text_upload))
       = Inr (Json (''Unsupported file format. File: notes.txt, Detected type: ''
                    @ ''application/octet-stream. Supported formats: '' @ supported_formats) 400)
   \<and> workdir (snd (compile_latex_endpoint bare_config (scenario_env run_ok) (Some text_upload)))
       = None
   \<and> fst (compile_latex_endpoint bare_config (scenario_env run_fail)
            (Some (zip_of_main plain_document)))
       = Inr (Json ''LaTeX compilation failed'' 400)
   \<and> workdir (snd (compile_latex_endpoint bare_config (scenario_env run_fail)
                     (Some (zip_of_main plain_document)))) = None
   \<and> workdir (snd (compile_latex_endpoint bare_config (scenario_env run_timeout)
                     (Some (zip_of_main plain_document)))) = None
   \<and> (\<forall>p. \<not> remove_fails send_file_raises p)
   \<and> fst (compile_latex_endpoint bare_config send_file_raises (Some (zip_of_main plain_document)))
       = Inl (OtherException ''Broken pipe'')
   \<and> workdir (snd (compile_latex_endpoint bare_config send_file_raises
                     (Some (zip_of_main plain_document)))) = None
   \<and> fst (compile_latex_endpoint bare_config removals_refused (Some (zip_of_main plain_document)))
       = Inr (Json ''LaTeX compilation failed'' 400)"
proof -
  have h: "\<forall>p. \<not> remove_fails (scenario_env run) p" for run
    by (simp add: scenario_env_def)
  have h': "\<forall>p. \<not> remove_fails send_file_raises p"
    by (simp add: send_file_raises_def scenario_env_def)
  have ok: "compile_latex_endpoint bare_config (scenario_env run_ok) (Some (zip_of_main plain_document))
       = (Inr (SendFile [''main.pdf''] ''main.pdf''),
          \<lparr>workdir = None, archive = None,
             calls = [first_pass_args (scenario_env run_ok) [''main.tex'']]\<rparr>)"
    by code_simp
  have r1: "fst (compile_latex_endpoint bare_config (scenario_env run_ok) (Some text_upload))
       = Inr (Json (''Unsupported file format. File: notes.txt, Detected type: ''
                    @ ''application/octet-stream. Supported formats: '' @ supported_formats) 400)"
    by code_simp
  have r2: "fst (compile_latex_endpoint bare_config (scenario_env run_fail)
            (Some (zip_of_main plain_document)))
       = Inr (Json ''LaTeX compilation failed'' 400)"
    by code_simp
  have r3: "fst (compile_latex_endpoint bare_config send_file_raises (Some (zip_of_main plain_document)))
       = Inl (OtherException ''Broken pipe'')"
    by code_simp
  have same: "removals_refused
      = (scenario_env run_fail)\<lparr>unlink_fails := (\<lambda>n. Some (PermissionError ''Access is denied'')),
                              remove_fails := (\<lambda>p. True)\<rparr>"
    by (simp add: removals_refused_def)
  note w = workspace_destroyed [where cfg = bare_config]
  from w [where ev = "scenario_env run_fail" and request = "Some (zip_of_main plain_document)"
      and uf = "\<lambda>n. Some (PermissionError ''Access is denied'')" and rf = "\<lambda>p. True"] r2 same
  have r4: "fst (compile_latex_endpoint bare_config removals_refused
                  (Some (zip_of_main plain_document)))
       = Inr (Json ''LaTeX compilation failed'' 400)"
    by simp
  from w [where ev = "scenario_env run_ok" and request = "Some text_upload"]
    w [where ev = "scenario_env run_fail" and request = "Some (zip_of_main plain_document)"]
    w [where ev = "scenario_env run_timeout" and request = "Some (zip_of_main plain_document)"]
    w [where ev = send_file_raises and request = "Some (zip_of_main plain_document)"]
    h h' ok r1 r2 r3 r4
  show ?thesis by simp
qed

end
